theory Spec2Isabelle
  imports Main
begin

section \<open>Multi-tenant isolation: plan catalog, tenant entity, tenant context\<close>

text \<open>
  A shallow embedding of \<^verbatim>\<open>src/tenants/isolation.py\<close>.

  Representation of Python values:
  \<^item> \<^verbatim>\<open>bytes\<close> is a list of 8-bit characters (\<^typ>\<open>string\<close>, every \<^typ>\<open>char\<close> is one byte);
  \<^item> \<^verbatim>\<open>str\<close> is represented by its UTF-8 encoding, again a \<^typ>\<open>string\<close>. The empty
    \<^verbatim>\<open>str\<close> is the empty list, equality of \<^verbatim>\<open>str\<close> is equality of encodings, and the
    byte \<^verbatim>\<open>0x2E\<close> occurs in an encoding exactly where the character \<^verbatim>\<open>"."\<close> occurs in
    the text;
  \<^item> \<^verbatim>\<open>int\<close> is \<^typ>\<open>int\<close>, \<^verbatim>\<open>Optional[str]\<close> is \<^typ>\<open>string option\<close>;
  \<^item> a raised exception is the \<open>Inl\<close> branch of a sum.
\<close>

subsection \<open>Exceptions\<close>

datatype error =
    KeyError
  | ValueError string
  | IndexError
  | UnicodeDecodeError
  | AppError string

subsection \<open>Plan tiers and the plan catalog\<close>

datatype TenantPlan = FREE | STARTER | PROFESSIONAL | ENTERPRISE

record PlanLimits =
  max_users :: int
  max_storage_gb :: int
  max_api_calls_per_day :: int
  features :: "string list"

text \<open>The module-level dictionary \<^verbatim>\<open>PLAN_LIMITS\<close>, entry by entry in source order.\<close>

definition PLAN_LIMITS :: "(TenantPlan \<times> PlanLimits) list" where
  "PLAN_LIMITS =
    [ (FREE,
        \<lparr> max_users = 3, max_storage_gb = 1, max_api_calls_per_day = 1000,
          features = [''basic_reports''] \<rparr>),
      (STARTER,
        \<lparr> max_users = 10, max_storage_gb = 10, max_api_calls_per_day = 10000,
          features = [''basic_reports'', ''api_access'', ''email_support''] \<rparr>),
      (PROFESSIONAL,
        \<lparr> max_users = 50, max_storage_gb = 100, max_api_calls_per_day = 100000,
          features = [''basic_reports'', ''api_access'', ''email_support'',
                      ''advanced_analytics'', ''integrations''] \<rparr>),
      (ENTERPRISE,
        \<lparr> max_users = - 1, max_storage_gb = - 1, max_api_calls_per_day = - 1,
          features = [''basic_reports'', ''api_access'', ''email_support'',
                      ''advanced_analytics'', ''integrations'',
                      ''sso'', ''audit_logs'', ''sla''] \<rparr>) ]"

text \<open>Subscripting a dictionary, \<^verbatim>\<open>d[k]\<close>: a missing key raises \<^verbatim>\<open>KeyError\<close>.\<close>

definition dict_getitem :: "('k \<times> 'v) list \<Rightarrow> 'k \<Rightarrow> error + 'v" where
  "dict_getitem d k = (case map_of d k of None \<Rightarrow> Inl KeyError | Some v \<Rightarrow> Inr v)"

subsection \<open>The tenant entity\<close>

record Tenant =
  id_tenant :: string
  name :: string
  slug :: string
  plan :: TenantPlan
  is_active :: bool
  created_at :: nat
  settings :: "(string \<times> string) list"

text \<open>The property \<^verbatim>\<open>Tenant.limits\<close>: \<^verbatim>\<open>PLAN_LIMITS[self.plan]\<close>.\<close>

definition limits :: "Tenant \<Rightarrow> error + PlanLimits" where
  "limits t = dict_getitem PLAN_LIMITS (plan t)"

text \<open>\<^verbatim>\<open>Tenant.has_feature\<close>: \<^verbatim>\<open>feature in self.limits.features\<close>.\<close>

definition has_feature :: "Tenant \<Rightarrow> string \<Rightarrow> error + bool" where
  "has_feature t feature =
     (case limits t of
        Inl e \<Rightarrow> Inl e
      | Inr l \<Rightarrow> Inr (feature \<in> set (features l)))"

text \<open>
  \<^verbatim>\<open>Tenant.can_add_user\<close>:
  \<^verbatim>\<open>max_users = self.limits.max_users; return max_users == -1 or current_count < max_users\<close>.
\<close>

definition can_add_user :: "Tenant \<Rightarrow> int \<Rightarrow> error + bool" where
  "can_add_user t current_count =
     (case limits t of
        Inl e \<Rightarrow> Inl e
      | Inr l \<Rightarrow>
          (let max_users = max_users l
           in Inr (max_users = - 1 \<or> current_count < max_users)))"

text \<open>
  The dataclass defaults of \<^verbatim>\<open>Tenant()\<close>; the fresh \<^verbatim>\<open>uuid4()\<close> string and the clock
  reading of \<^verbatim>\<open>datetime.utcnow\<close> are inputs.
\<close>

definition Tenant_init :: "string \<Rightarrow> nat \<Rightarrow> Tenant" where
  "Tenant_init uuid now =
     \<lparr> id_tenant = uuid, name = [], slug = [], plan = FREE, is_active = True,
       created_at = now, settings = [] \<rparr>"

subsection \<open>The current-tenant context variable\<close>

text \<open>
  \<^verbatim>\<open>current_tenant_var = ContextVar("current_tenant", default=None)\<close>. A \<open>context\<close> is the
  value the variable has for the running task; in a fresh context \<^verbatim>\<open>get()\<close> gives the
  default \<^verbatim>\<open>None\<close>.
\<close>

record "context" =
  current_tenant_var :: "string option"

definition initial_context :: "context" where
  "initial_context = \<lparr> current_tenant_var = None \<rparr>"

text \<open>A computation reads and updates the context and either raises or returns.\<close>

type_synonym 'a comp = "context \<Rightarrow> (error + 'a) \<times> context"

definition get_current_tenant :: "context \<Rightarrow> string option" where
  "get_current_tenant c = current_tenant_var c"

definition set_current_tenant :: "string option \<Rightarrow> context \<Rightarrow> context" where
  "set_current_tenant tenant_id c = c\<lparr> current_tenant_var := tenant_id \<rparr>"

text \<open>
  The context manager \<^verbatim>\<open>tenant_context\<close>. The body of the \<^verbatim>\<open>with\<close> statement receives the
  yielded identifier and runs in the updated context; the \<^verbatim>\<open>finally\<close> clause runs on
  the raising path and on the returning path alike.
\<close>

definition tenant_context :: "string \<Rightarrow> (string \<Rightarrow> 'a comp) \<Rightarrow> 'a comp" where
  "tenant_context tenant_id body c =
     (let previous = get_current_tenant c;
          c1 = set_current_tenant (Some tenant_id) c
      in case body tenant_id c1 of
           (Inl e, c2) \<Rightarrow> (Inl e, set_current_tenant previous c2)
         | (Inr v, c2) \<Rightarrow> (Inr v, set_current_tenant previous c2))"

text \<open>Python truth value of an \<^verbatim>\<open>Optional[str]\<close>: \<^verbatim>\<open>None\<close> and \<^verbatim>\<open>""\<close> are false.\<close>

definition truthy :: "string option \<Rightarrow> bool" where
  "truthy v = (case v of None \<Rightarrow> False | Some s \<Rightarrow> s \<noteq> [])"

definition require_tenant :: "context \<Rightarrow> error + string" where
  "require_tenant c =
     (let tenant_id = get_current_tenant c
      in if \<not> truthy tenant_id then Inl (ValueError ''No tenant context set'')
         else (case tenant_id of
                 Some s \<Rightarrow> Inr s
               | None \<Rightarrow> Inl (ValueError ''No tenant context set'')))"

subsection \<open>Tenant-aware queries\<close>

text \<open>
  A class using the mixin \<^verbatim>\<open>TenantAwareQuery\<close> carries a column attribute
  \<^verbatim>\<open>organization_id\<close>; comparing a column with \<^verbatim>\<open>==\<close> builds an equality expression
  rather than a boolean.
\<close>

record 'col query_class =
  organization_id :: 'col

datatype 'col binary_expression = Eq 'col string

definition get_tenant_filter :: "'col query_class \<Rightarrow> context \<Rightarrow> error + 'col binary_expression" where
  "get_tenant_filter cls c =
     (case require_tenant c of
        Inl e \<Rightarrow> Inl e
      | Inr tenant_id \<Rightarrow> Inr (Eq (organization_id cls) tenant_id))"

subsection \<open>Scope bodies\<close>

text \<open>A \<^verbatim>\<open>with\<close> body that makes one read-only call and returns its result.\<close>

definition body_calling :: "(context \<Rightarrow> error + 'a) \<Rightarrow> string \<Rightarrow> 'a comp" where
  "body_calling f tenant_id c = (f c, c)"

text \<open>
  A \<^verbatim>\<open>with\<close> body that calls \<^verbatim>\<open>set_current_tenant(x)\<close> and then returns
  \<^verbatim>\<open>get_current_tenant()\<close>.
\<close>

definition body_set_then_get :: "string option \<Rightarrow> string \<Rightarrow> (string option) comp" where
  "body_set_then_get x tenant_id c =
     (let c1 = set_current_tenant x c in (Inr (get_current_tenant c1), c1))"

text \<open>A \<^verbatim>\<open>with\<close> body that raises.\<close>

definition body_raising :: "error \<Rightarrow> string \<Rightarrow> 'a comp" where
  "body_raising e tenant_id c = (Inl e, c)"

text \<open>A \<^verbatim>\<open>with\<close> body that returns \<^verbatim>\<open>get_current_tenant()\<close>.\<close>

definition body_get :: "string \<Rightarrow> (string option) comp" where
  "body_get tenant_id c = (Inr (get_current_tenant c), c)"

text \<open>
  \<^verbatim>\<open>with tenant_context(t1): with tenant_context(t2): ... body\<close>: the scopes of a list of
  identifiers, each nested in the one before, around a body.
\<close>

fun nested_scopes :: "string list \<Rightarrow> (string \<Rightarrow> 'a comp) \<Rightarrow> string \<Rightarrow> 'a comp" where
  "nested_scopes [] body = body"
| "nested_scopes (t # ts) body = (\<lambda>_. tenant_context t (nested_scopes ts body))"

subsection \<open>Built-in operations on \<^verbatim>\<open>bytes\<close>, \<^verbatim>\<open>str\<close> and \<^verbatim>\<open>dict\<close>\<close>

definition in_range :: "nat \<Rightarrow> nat \<Rightarrow> char \<Rightarrow> bool" where
  "in_range lo hi b = (lo \<le> of_char b \<and> (of_char b :: nat) \<le> hi)"

text \<open>
  Well-formed UTF-8, as the strict decoder behind \<^verbatim>\<open>bytes.decode()\<close> accepts it: one
  byte below \<^verbatim>\<open>0x80\<close>; a lead byte \<^verbatim>\<open>C2..DF\<close> and one continuation byte; \<^verbatim>\<open>E0..EF\<close> and
  two (no overlong forms, no surrogates); \<^verbatim>\<open>F0..F4\<close> and three (no overlong forms, nothing
  above \<^verbatim>\<open>U+10FFFF\<close>).
\<close>

fun well_formed_utf8 :: "string \<Rightarrow> bool" where
  "well_formed_utf8 [] = True"
| "well_formed_utf8 (b0 # bs) =
     (let n0 = (of_char b0 :: nat)
      in if n0 < 128 then well_formed_utf8 bs
         else if 194 \<le> n0 \<and> n0 \<le> 223 then
           (case bs of
              b1 # r \<Rightarrow> in_range 128 191 b1 \<and> well_formed_utf8 r
            | _ \<Rightarrow> False)
         else if 224 \<le> n0 \<and> n0 \<le> 239 then
           (case bs of
              b1 # b2 # r \<Rightarrow>
                in_range (if n0 = 224 then 160 else 128) (if n0 = 237 then 159 else 191) b1
                \<and> in_range 128 191 b2 \<and> well_formed_utf8 r
            | _ \<Rightarrow> False)
         else if 240 \<le> n0 \<and> n0 \<le> 244 then
           (case bs of
              b1 # b2 # b3 # r \<Rightarrow>
                in_range (if n0 = 240 then 144 else 128) (if n0 = 244 then 143 else 191) b1
                \<and> in_range 128 191 b2 \<and> in_range 128 191 b3 \<and> well_formed_utf8 r
            | _ \<Rightarrow> False)
         else False)"

text \<open>\<^verbatim>\<open>bytes.decode()\<close>: the text a well-formed byte string encodes, else an exception.\<close>

definition decode :: "string \<Rightarrow> error + string" where
  "decode b = (if well_formed_utf8 b then Inr b else Inl UnicodeDecodeError)"

text \<open>
  \<^verbatim>\<open>str.lower()\<close> followed by \<^verbatim>\<open>str.encode()\<close>, for a header name. HTTP field names are
  ASCII, where lowering maps \<^verbatim>\<open>A..Z\<close> to \<^verbatim>\<open>a..z\<close> and encoding is the identity; bytes
  outside \<^verbatim>\<open>A..Z\<close> are kept as they are.
\<close>

definition lower_char :: "char \<Rightarrow> char" where
  "lower_char ch =
     (let n = (of_char ch :: nat) in if 65 \<le> n \<and> n \<le> 90 then char_of (n + 32) else ch)"

definition lower_encode :: "string \<Rightarrow> string" where
  "lower_encode s = map lower_char s"

text \<open>\<^verbatim>\<open>s.split(sep)\<close> for a one-character separator: never an empty list.\<close>

fun str_split :: "char \<Rightarrow> string \<Rightarrow> string list" where
  "str_split sep [] = [[]]"
| "str_split sep (ch # cs) =
     (if ch = sep then [] # str_split sep cs
      else (case str_split sep cs of
              p # ps \<Rightarrow> (ch # p) # ps
            | [] \<Rightarrow> [[ch]]))"

text \<open>\<^verbatim>\<open>xs[0]\<close>: the first item, \<^verbatim>\<open>IndexError\<close> on an empty list.\<close>

definition getitem0 :: "'a list \<Rightarrow> error + 'a" where
  "getitem0 xs = (case xs of [] \<Rightarrow> Inl IndexError | x # _ \<Rightarrow> Inr x)"

text \<open>
  \<^verbatim>\<open>dict(pairs).get(k, default)\<close>: building a dictionary from a sequence of pairs keeps,
  for a repeated key, the value of its last pair.
\<close>

definition dict_get :: "('k \<times> 'v) list \<Rightarrow> 'k \<Rightarrow> 'v \<Rightarrow> 'v" where
  "dict_get pairs k dflt = (case map_of (rev pairs) k of None \<Rightarrow> dflt | Some v \<Rightarrow> v)"

subsection \<open>The ASGI middleware\<close>

text \<open>
  The connection scope: its \<^verbatim>\<open>"type"\<close> entry and its \<^verbatim>\<open>"headers"\<close> entry, a sequence of
  (name, value) pairs of byte strings, which may be missing.
\<close>

record scope =
  scope_type :: string
  headers :: "(string \<times> string) list option"

text \<open>
  The wrapped application is a computation over the scope (the \<^verbatim>\<open>receive\<close> and \<^verbatim>\<open>send\<close>
  channels play no part in tenant resolution).
\<close>

record TenantMiddleware =
  app :: "scope \<Rightarrow> unit comp"
  header_name :: string

definition TenantMiddleware_init :: "(scope \<Rightarrow> unit comp) \<Rightarrow> string \<Rightarrow> TenantMiddleware" where
  "TenantMiddleware_init a hn = \<lparr> app = a, header_name = lower_encode hn \<rparr>"

definition default_header_name :: string where
  "default_header_name = ''X-Tenant-ID''"

text \<open>
  The tenant extraction inside \<^verbatim>\<open>TenantMiddleware.__call__\<close>: the header named
  \<^verbatim>\<open>self.header_name\<close>, else the host's first label when the host contains a dot.
\<close>

definition extract_tenant_id :: "TenantMiddleware \<Rightarrow> scope \<Rightarrow> error + string" where
  "extract_tenant_id self sc =
     (let hs = (case headers sc of None \<Rightarrow> [] | Some h \<Rightarrow> h)
      in case decode (dict_get hs (header_name self) []) of
           Inl e \<Rightarrow> Inl e
         | Inr tenant_id \<Rightarrow>
             if tenant_id = [] then
               (case decode (dict_get hs ''host'' []) of
                  Inl e \<Rightarrow> Inl e
                | Inr host \<Rightarrow>
                    if host \<noteq> [] \<and> CHR ''.'' \<in> set host
                    then getitem0 (str_split CHR ''.'' host)
                    else Inr tenant_id)
             else Inr tenant_id)"

text \<open>\<^verbatim>\<open>TenantMiddleware.__call__\<close>.\<close>

definition call :: "TenantMiddleware \<Rightarrow> scope \<Rightarrow> unit comp" where
  "call self sc c =
     (if scope_type sc \<noteq> ''http'' then app self sc c
      else (case extract_tenant_id self sc of
              Inl e \<Rightarrow> (Inl e, c)
            | Inr tenant_id \<Rightarrow> tenant_context tenant_id (\<lambda>_. app self sc) c))"

text \<open>An application that returns normally and leaves the context alone.\<close>

definition app_ok :: "scope \<Rightarrow> unit comp" where
  "app_ok sc c = (Inr (), c)"

section \<open>Properties of the plan catalog and the tenant entity\<close>

lemma PLAN_LIMITS_keys_distinct: "distinct (map fst PLAN_LIMITS)"
  by (simp add: PLAN_LIMITS_def)

lemma getitem_FREE:
  "dict_getitem PLAN_LIMITS FREE =
     Inr \<lparr> max_users = 3, max_storage_gb = 1, max_api_calls_per_day = 1000,
           features = [''basic_reports''] \<rparr>"
  by (simp add: dict_getitem_def PLAN_LIMITS_def)

lemma getitem_STARTER:
  "dict_getitem PLAN_LIMITS STARTER =
     Inr \<lparr> max_users = 10, max_storage_gb = 10, max_api_calls_per_day = 10000,
           features = [''basic_reports'', ''api_access'', ''email_support''] \<rparr>"
  by (simp add: dict_getitem_def PLAN_LIMITS_def)

lemma getitem_PROFESSIONAL:
  "dict_getitem PLAN_LIMITS PROFESSIONAL =
     Inr \<lparr> max_users = 50, max_storage_gb = 100, max_api_calls_per_day = 100000,
           features = [''basic_reports'', ''api_access'', ''email_support'',
                       ''advanced_analytics'', ''integrations''] \<rparr>"
  by (simp add: dict_getitem_def PLAN_LIMITS_def)

lemma getitem_ENTERPRISE:
  "dict_getitem PLAN_LIMITS ENTERPRISE =
     Inr \<lparr> max_users = - 1, max_storage_gb = - 1, max_api_calls_per_day = - 1,
           features = [''basic_reports'', ''api_access'', ''email_support'',
                       ''advanced_analytics'', ''integrations'',
                       ''sso'', ''audit_logs'', ''sla''] \<rparr>"
  by (simp add: dict_getitem_def PLAN_LIMITS_def)

lemmas getitem_plan = getitem_FREE getitem_STARTER getitem_PROFESSIONAL getitem_ENTERPRISE

lemma getitem_total: "\<exists>l. dict_getitem PLAN_LIMITS p = Inr l"
  by (cases p) (simp_all add: getitem_plan)


lemma limits_total: "\<exists>l. limits t = Inr l"
  unfolding limits_def by (rule getitem_total)

lemma limits_plan:
  "limits (t\<lparr>plan := FREE\<rparr>) = dict_getitem PLAN_LIMITS FREE"
  "limits (t\<lparr>plan := ENTERPRISE\<rparr>) = dict_getitem PLAN_LIMITS ENTERPRISE"
  by (simp_all add: limits_def)

lemma max_users_bounded:
  "limits t = Inr l \<Longrightarrow> plan t \<noteq> ENTERPRISE \<Longrightarrow> 3 \<le> max_users l"
  by (cases "plan t") (auto simp: limits_def getitem_plan)

text \<open>
  Claim C6. Looking a plan up in the catalog never fails (every one of the four tiers has
  an entry, and no tier has two), and the entries are exactly: free 3 users, 1 GB, 1000
  calls per day, \<open>basic_reports\<close>; starter 10, 10, 10000, adding \<open>api_access\<close> and
  \<open>email_support\<close>; professional 50, 100, 100000, adding \<open>advanced_analytics\<close> and
  \<open>integrations\<close>; enterprise -1, -1, -1, adding \<open>sso\<close>, \<open>audit_logs\<close> and \<open>sla\<close>. The
  lookup is a function of the plan alone, so two lookups of one plan agree.
\<close>

theorem plan_catalog_values:
  "dict_getitem PLAN_LIMITS FREE =
     Inr \<lparr> max_users = 3, max_storage_gb = 1, max_api_calls_per_day = 1000,
           features = [''basic_reports''] \<rparr>
   \<and> dict_getitem PLAN_LIMITS STARTER =
     Inr \<lparr> max_users = 10, max_storage_gb = 10, max_api_calls_per_day = 10000,
           features = [''basic_reports'', ''api_access'', ''email_support''] \<rparr>
   \<and> dict_getitem PLAN_LIMITS PROFESSIONAL =
     Inr \<lparr> max_users = 50, max_storage_gb = 100, max_api_calls_per_day = 100000,
           features = [''basic_reports'', ''api_access'', ''email_support'',
                       ''advanced_analytics'', ''integrations''] \<rparr>
   \<and> dict_getitem PLAN_LIMITS ENTERPRISE =
     Inr \<lparr> max_users = - 1, max_storage_gb = - 1, max_api_calls_per_day = - 1,
           features = [''basic_reports'', ''api_access'', ''email_support'',
                       ''advanced_analytics'', ''integrations'',
                       ''sso'', ''audit_logs'', ''sla''] \<rparr>
   \<and> (\<exists>l. dict_getitem PLAN_LIMITS p = Inr l)
   \<and> (\<exists>l. limits t = Inr l)
   \<and> distinct (map fst PLAN_LIMITS)"
  using getitem_plan getitem_total [of p] limits_total [of t] PLAN_LIMITS_keys_distinct
  by simp

text \<open>
  Claim C7. For a non-negative count, \<open>can_add_user\<close> returns
  \<open>max_users = -1 or current_count < max_users\<close> for the limits of the tenant's plan: true
  for every such count on the enterprise plan, and on the free plan true exactly for the
  counts 0, 1 and 2.
\<close>

theorem can_add_user_nonneg:
  assumes "0 \<le> n"
  shows "(\<exists>l. limits t = Inr l
            \<and> can_add_user t n = Inr (max_users l = - 1 \<or> n < max_users l))
       \<and> can_add_user (t\<lparr>plan := ENTERPRISE\<rparr>) n = Inr True
       \<and> can_add_user (t\<lparr>plan := FREE\<rparr>) n = Inr (n = 0 \<or> n = 1 \<or> n = 2)"
proof -
  obtain l where l: "limits t = Inr l" using limits_total by blast
  then have "can_add_user t n = Inr (max_users l = - 1 \<or> n < max_users l)"
    by (simp add: can_add_user_def Let_def)
  moreover have "can_add_user (t\<lparr>plan := ENTERPRISE\<rparr>) n = Inr True"
    by (simp add: can_add_user_def limits_plan getitem_plan)
  moreover have "can_add_user (t\<lparr>plan := FREE\<rparr>) n = Inr (n = 0 \<or> n = 1 \<or> n = 2)"
    using assms by (auto simp add: can_add_user_def limits_plan getitem_plan)
  ultimately show ?thesis using l by blast
qed

text \<open>The theorem at an enterprise tenant with a million users and a free tenant with 2 and 3.\<close>

theorem can_add_user_nonneg_witness:
  "can_add_user ((Tenant_init ''t1'' 0)\<lparr>plan := ENTERPRISE\<rparr>) 1000000 = Inr True
   \<and> can_add_user ((Tenant_init ''t1'' 0)\<lparr>plan := FREE\<rparr>) 2 = Inr True
   \<and> can_add_user ((Tenant_init ''t1'' 0)\<lparr>plan := FREE\<rparr>) 3 = Inr False"
  using can_add_user_nonneg [of 1000000 "Tenant_init ''t1'' 0"]
        can_add_user_nonneg [of 2 "Tenant_init ''t1'' 0"]
        can_add_user_nonneg [of 3 "Tenant_init ''t1'' 0"]
  by simp

text \<open>
  Claim C8. \<open>has_feature\<close> returns whether the feature is in the feature list of the
  tenant's plan limits; \<open>sso\<close> is not a feature of a free tenant and is one of an
  enterprise tenant.
\<close>

theorem has_feature_membership:
  "(\<exists>l. limits t = Inr l \<and> has_feature t f = Inr (f \<in> set (features l)))
   \<and> has_feature (t\<lparr>plan := FREE\<rparr>) ''sso'' = Inr False
   \<and> has_feature (t\<lparr>plan := ENTERPRISE\<rparr>) ''sso'' = Inr True"
proof -
  obtain l where l: "limits t = Inr l" using limits_total by blast
  then have "has_feature t f = Inr (f \<in> set (features l))"
    by (simp add: has_feature_def)
  moreover have "has_feature (t\<lparr>plan := FREE\<rparr>) ''sso'' = Inr False"
    by (simp add: has_feature_def limits_plan getitem_plan)
  moreover have "has_feature (t\<lparr>plan := ENTERPRISE\<rparr>) ''sso'' = Inr True"
    by (simp add: has_feature_def limits_plan getitem_plan)
  ultimately show ?thesis using l by blast
qed

text \<open>
  Claim C10. On a bounded plan (any tier but enterprise) \<open>can_add_user\<close> returns true for
  every negative count: the count is neither rejected nor answered with false.
\<close>

theorem can_add_user_negative_count:
  assumes "plan t \<noteq> ENTERPRISE" and "n < 0"
  shows "can_add_user t n = Inr True"
proof -
  obtain l where l: "limits t = Inr l" using limits_total by blast
  from l assms(1) have "3 \<le> max_users l" by (rule max_users_bounded)
  with assms(2) l show ?thesis by (simp add: can_add_user_def Let_def)
qed

text \<open>The theorem at a free tenant and the count -5.\<close>

theorem can_add_user_negative_count_witness:
  "plan (Tenant_init ''t1'' 0) \<noteq> ENTERPRISE \<and> (- 5 :: int) < 0
   \<and> can_add_user (Tenant_init ''t1'' 0) (- 5) = Inr True"
proof -
  have p: "plan (Tenant_init ''t1'' 0) \<noteq> ENTERPRISE" by (simp add: Tenant_init_def)
  have n: "(- 5 :: int) < 0" by simp
  show ?thesis using p n can_add_user_negative_count [OF p n] by simp
qed

section \<open>Properties of the tenant context\<close>

lemma get_set_current_tenant [simp]:
  "get_current_tenant (set_current_tenant x c) = x"
  by (simp add: get_current_tenant_def set_current_tenant_def)

lemma snd_tenant_context:
  "snd (tenant_context tid body c) =
     set_current_tenant (get_current_tenant c) (snd (body tid (set_current_tenant (Some tid) c)))"
  by (simp add: tenant_context_def Let_def split: prod.splits sum.splits)

lemma fst_tenant_context:
  "fst (tenant_context tid body c) = fst (body tid (set_current_tenant (Some tid) c))"
  by (simp add: tenant_context_def Let_def split: prod.splits sum.splits)

lemma require_tenant_cases:
  "require_tenant c =
     (case get_current_tenant c of
        None \<Rightarrow> Inl (ValueError ''No tenant context set'')
      | Some s \<Rightarrow> if s = [] then Inl (ValueError ''No tenant context set'') else Inr s)"
  by (simp add: require_tenant_def truthy_def Let_def split: option.splits)

lemma nested_scopes_restore:
  "get_current_tenant (snd (nested_scopes (t # ts) body x c)) = get_current_tenant c"
  by (simp add: snd_tenant_context)

lemma nested_scopes_innermost:
  "fst (nested_scopes (t # ts) body_get x c) = Inr (Some (last (t # ts)))"
proof (induction ts arbitrary: t x c)
  case Nil
  show ?case by (simp add: fst_tenant_context body_get_def)
next
  case (Cons u us)
  have "fst (nested_scopes (t # u # us) body_get x c)
        = fst (nested_scopes (u # us) body_get t (set_current_tenant (Some t) c))"
    by (simp add: fst_tenant_context)
  also have "\<dots> = Inr (Some (last (u # us)))" by (rule Cons.IH)
  finally show ?case by simp
qed

text \<open>
  Claim C1, as stated, fails: inside a scope entered with the empty identifier
  \<open>require_tenant\<close> raises instead of returning the empty identifier.
\<close>

theorem require_tenant_empty_scope_counterexample:
  "tenant_context [] (body_calling require_tenant) initial_context
     = (Inl (ValueError ''No tenant context set''), initial_context)"
  by (simp add: tenant_context_def body_calling_def require_tenant_cases
      initial_context_def set_current_tenant_def get_current_tenant_def)

text \<open>
  Claim C1, amended. \<open>require_tenant\<close> raises exactly when the current value is absent
  or is the empty string, and the exception is then the \<open>ValueError\<close> with the message
  "No tenant context set"; it returns exactly when the current value is a non-empty
  string, and returns that string. So inside a scope entered with a non-empty identifier
  it returns the identifier, and inside a scope entered with the empty identifier it
  raises.
\<close>

theorem require_tenant_raises_iff:
  "((\<exists>e. require_tenant c = Inl e)
      = (get_current_tenant c = None \<or> get_current_tenant c = Some []))
   \<and> ((\<exists>e. require_tenant c = Inl e)
      = (require_tenant c = Inl (ValueError ''No tenant context set'')))
   \<and> ((\<exists>s. require_tenant c = Inr s)
      = (\<exists>s. get_current_tenant c = Some s \<and> s \<noteq> [] \<and> require_tenant c = Inr s))
   \<and> fst (tenant_context (a # as) (body_calling require_tenant) c) = Inr (a # as)
   \<and> fst (tenant_context [] (body_calling require_tenant) c)
        = Inl (ValueError ''No tenant context set'')"
  by (auto simp add: require_tenant_cases fst_tenant_context body_calling_def
      split: option.splits if_splits)

text \<open>
  Claim C2. Whatever the body of a scope does, and whether it returns or raises, the
  current tenant after \<open>tenant_context\<close> is the one from before it; the body runs with the
  scope's identifier current and its outcome is passed on unchanged. A scope nested in
  another restores the outer scope's identifier on exit, and the outer one then restores
  the value from before both. For scopes nested to any depth, the innermost identifier is
  the current one inside, and after the outermost exit the current tenant is the one from
  before the first entry.
\<close>

theorem tenant_context_restores:
  "get_current_tenant (snd (tenant_context tid body c)) = get_current_tenant c
   \<and> fst (tenant_context tid body c) = fst (body tid (set_current_tenant (Some tid) c))
   \<and> get_current_tenant (set_current_tenant (Some tid) c) = Some tid
   \<and> get_current_tenant
        (snd (tenant_context outer (\<lambda>_. tenant_context inner body) c)) = get_current_tenant c
   \<and> get_current_tenant
        (snd (tenant_context inner body (set_current_tenant (Some outer) c))) = Some outer
   \<and> fst (tenant_context tid (body_raising e) c) = (Inl e :: error + 'b)
   \<and> get_current_tenant (snd (tenant_context tid (body_raising e :: string \<Rightarrow> 'b comp) c))
        = get_current_tenant c
   \<and> get_current_tenant (snd (nested_scopes (t # ts) body x c)) = get_current_tenant c
   \<and> fst (nested_scopes (t # ts) body_get x c) = Inr (Some (last (t # ts)))"
  by (simp add: snd_tenant_context fst_tenant_context body_raising_def
      nested_scopes_restore nested_scopes_innermost del: nested_scopes.simps)

text \<open>
  Claim C4. With the scope \<open>acme\<close> active \<open>get_tenant_filter\<close> yields the expression
  \<open>organization_id == "acme"\<close> of the given class; called in a fresh context, outside
  any scope, it raises the no-tenant error; and once the scope has been left the current
  tenant is \<open>None\<close> again.
\<close>

theorem get_tenant_filter_acme:
  "tenant_context ''acme'' (body_calling (get_tenant_filter cls)) initial_context
     = (Inr (Eq (organization_id cls) ''acme''), initial_context)
   \<and> get_tenant_filter cls (set_current_tenant (Some ''acme'') c)
     = Inr (Eq (organization_id cls) ''acme'')
   \<and> get_tenant_filter cls initial_context = Inl (ValueError ''No tenant context set'')
   \<and> get_current_tenant
       (snd (tenant_context ''acme'' (body_calling (get_tenant_filter cls)) initial_context))
     = None"
  by (simp add: tenant_context_def body_calling_def get_tenant_filter_def require_tenant_cases
      initial_context_def set_current_tenant_def get_current_tenant_def)

text \<open>
  Claim C9, as stated, fails: \<open>set_current_tenant\<close> is a module-level function that
  writes the slot directly. Called inside the scope \<open>acme\<close> it makes \<open>other\<close> the current
  tenant, and called outside any scope it leaves \<open>other\<close> current although no scope was
  entered.
\<close>

theorem raw_setter_counterexample:
  "tenant_context ''acme'' (body_set_then_get (Some ''other'')) initial_context
     = (Inr (Some ''other''), initial_context)
   \<and> get_current_tenant (set_current_tenant (Some ''other'') initial_context) = Some ''other''
   \<and> get_current_tenant initial_context = None"
  by (simp add: tenant_context_def body_set_then_get_def
      initial_context_def set_current_tenant_def get_current_tenant_def)

text \<open>
  Claim C9, amended. Besides the scoped entry \<open>tenant_context\<close> and the readers, the
  module offers the raw setter \<open>set_current_tenant\<close>: after it, the current tenant is the
  value set, also in the middle of a scope. The scope's exit is not affected: it still puts
  back the value that was current when the scope was entered.
\<close>

theorem raw_setter_public_scope_still_restores:
  "get_current_tenant (set_current_tenant x c) = x
   \<and> fst (tenant_context tid (body_set_then_get x) c) = Inr x
   \<and> get_current_tenant (snd (tenant_context tid (body_set_then_get x) c))
       = get_current_tenant c"
  by (simp add: snd_tenant_context fst_tenant_context body_set_then_get_def Let_def)


section \<open>Properties of tenant resolution in the middleware\<close>

lemma str_split_first:
  "\<exists>ps. str_split sep s = takeWhile (\<lambda>ch. ch \<noteq> sep) s # ps"
  by (induction s) auto

lemma getitem0_str_split:
  "getitem0 (str_split sep s) = Inr (takeWhile (\<lambda>ch. ch \<noteq> sep) s)"
  using str_split_first [of sep s] by (auto simp add: getitem0_def)

lemma header_name_default:
  "header_name (TenantMiddleware_init a default_header_name) = ''x-tenant-id''"
  unfolding TenantMiddleware_init_def default_header_name_def lower_encode_def lower_char_def
  by code_simp

text \<open>
  Claim C5, amended. The header named by the lower-cased configured name (for the default
  \<open>X-Tenant-ID\<close>: \<open>x-tenant-id\<close>) is read first, the value of a repeated header being its
  last occurrence. If that value is not empty it is the identifier. Otherwise, if the host
  value contains a dot, the identifier is the part of the host before its first dot;
  a host without a dot, an empty host and a missing host all give the empty identifier.
  A value that has to be decoded and is not well-formed UTF-8 raises
  \<open>UnicodeDecodeError\<close>. In particular the header \<open>acme\<close> with host
  \<open>other.example.com\<close> gives \<open>acme\<close>, no header with host \<open>acme.example.com\<close> gives
  \<open>acme\<close>, and neither gives the empty identifier.
\<close>

theorem extract_tenant_id_precedence:
  "extract_tenant_id self \<lparr> scope_type = ty, headers = Some hs \<rparr> =
     (let hv = dict_get hs (header_name self) [];
          host = dict_get hs ''host'' []
      in if hv \<noteq> [] then
           (if well_formed_utf8 hv then Inr hv else Inl UnicodeDecodeError)
         else if well_formed_utf8 host then
           (if CHR ''.'' \<in> set host then Inr (takeWhile (\<lambda>ch. ch \<noteq> CHR ''.'') host)
            else Inr [])
         else Inl UnicodeDecodeError)
   \<and> extract_tenant_id self \<lparr> scope_type = ty, headers = None \<rparr> = Inr []
   \<and> header_name (TenantMiddleware_init a default_header_name) = ''x-tenant-id''
   \<and> extract_tenant_id (TenantMiddleware_init a default_header_name)
        \<lparr> scope_type = ty,
          headers = Some [(''x-tenant-id'', ''acme''), (''host'', ''other.example.com'')] \<rparr>
       = Inr ''acme''
   \<and> extract_tenant_id (TenantMiddleware_init a default_header_name)
        \<lparr> scope_type = ty, headers = Some [(''host'', ''acme.example.com'')] \<rparr>
       = Inr ''acme''
   \<and> extract_tenant_id (TenantMiddleware_init a default_header_name)
        \<lparr> scope_type = ty, headers = Some [] \<rparr>
       = Inr []"
proof -
  have general: "extract_tenant_id self \<lparr> scope_type = ty, headers = Some hs \<rparr> =
     (let hv = dict_get hs (header_name self) [];
          host = dict_get hs ''host'' []
      in if hv \<noteq> [] then
           (if well_formed_utf8 hv then Inr hv else Inl UnicodeDecodeError)
         else if well_formed_utf8 host then
           (if CHR ''.'' \<in> set host then Inr (takeWhile (\<lambda>ch. ch \<noteq> CHR ''.'') host)
            else Inr [])
         else Inl UnicodeDecodeError)" for hs self
    by (auto simp add: extract_tenant_id_def decode_def Let_def getitem0_str_split)
  have none: "extract_tenant_id self \<lparr> scope_type = ty, headers = None \<rparr> = Inr []"
    by (simp add: extract_tenant_id_def decode_def dict_get_def)
  have e1: "extract_tenant_id (TenantMiddleware_init a default_header_name)
        \<lparr> scope_type = ty,
          headers = Some [(''x-tenant-id'', ''acme''), (''host'', ''other.example.com'')] \<rparr>
       = Inr ''acme''"
    by (simp add: general header_name_default dict_get_def)
  have e2: "extract_tenant_id (TenantMiddleware_init a default_header_name)
        \<lparr> scope_type = ty, headers = Some [(''host'', ''acme.example.com'')] \<rparr>
       = Inr ''acme''"
    by (simp add: general header_name_default dict_get_def)
  have e3: "extract_tenant_id (TenantMiddleware_init a default_header_name)
        \<lparr> scope_type = ty, headers = Some [] \<rparr> = Inr []"
    by (simp add: general header_name_default dict_get_def)
  from general none header_name_default [of a] e1 e2 e3 show ?thesis by blast
qed

text \<open>
  Claim C5, as stated, fails: without a tenant header and with the host \<open>localhost\<close>,
  whose first dot-delimited label is \<open>localhost\<close>, the middleware resolves the empty
  identifier; and a tenant header whose value is the single byte \<open>0xFF\<close>, which is not
  empty, is not resolved to any identifier, since decoding it raises.
\<close>

theorem extract_tenant_id_dotless_host_counterexample:
  "extract_tenant_id (TenantMiddleware_init app_ok default_header_name)
        \<lparr> scope_type = ''http'', headers = Some [(''host'', ''localhost'')] \<rparr>
       = Inr []
   \<and> getitem0 (str_split CHR ''.'' ''localhost'') = Inr ''localhost''
   \<and> extract_tenant_id (TenantMiddleware_init app_ok default_header_name)
        \<lparr> scope_type = ''http'',
          headers = Some [(''x-tenant-id'', [char_of (255 :: nat)])] \<rparr>
       = Inl UnicodeDecodeError"
  by (simp add: extract_tenant_id_def decode_def header_name_default dict_get_def getitem0_def)

text \<open>An HTTP request runs the application inside the scope of the resolved identifier.\<close>

lemma call_http:
  "extract_tenant_id self sc = Inr tid \<Longrightarrow> scope_type sc = ''http'' \<Longrightarrow>
   call self sc c = tenant_context tid (\<lambda>_. app self sc) c"
  by (simp add: call_def)

end
